theory Spec2Isabelle
  imports Main "HOL-Library.Word"
begin

section \<open>Machine types, errors and the driver boundary\<close>

text \<open>
  The embedding follows \<^verbatim>\<open>PyNvCodec/TC/src/MemoryInterfaces.cpp\<close>.
  \<^verbatim>\<open>uint32_t\<close> is a 32-bit word; \<^verbatim>\<open>size_t\<close>, \<^verbatim>\<open>uint64_t\<close>, \<^verbatim>\<open>void *\<close>,
  \<^verbatim>\<open>CUdeviceptr\<close> and \<^verbatim>\<open>CUcontext\<close> are 64-bit words; the null pointer is 0.
\<close>

type_synonym u32 = "32 word"
type_synonym u64 = "64 word"
type_synonym ptr = "64 word"

text \<open>The two exceptions the file throws: \<^verbatim>\<open>std::bad_alloc\<close> and
  \<^verbatim>\<open>std::invalid_argument\<close> with its message.\<close>

datatype error = bad_alloc | invalid_argument string

text \<open>
  Calls that leave the file: the CUDA runtime and driver entry points and \<^verbatim>\<open>memcpy\<close>.
  The model appends each call, with its arguments, to a trace.
\<close>

datatype call =
    CudaMallocHost u64
  | CudaFreeHost ptr
  | Memcpy ptr ptr u64
  | CuCtxPushCurrent ptr
  | CuCtxPopCurrent
  | CuMemAllocPitch u64 u64 u32
  | CuMemFree ptr

text \<open>
  What \<^verbatim>\<open>cuMemAllocPitch\<close> does with its two out-parameters. On success it writes the
  device pointer and the pitch. On failure it writes nothing: \<^verbatim>\<open>gpuMem\<close> keeps its
  value and the local \<^verbatim>\<open>size_t newPitch\<close>, which has no initialiser, holds whatever the
  stack held (the argument of \<open>PitchFail\<close>).
\<close>

datatype pitch_result = PitchOk ptr u64 | PitchFail u64

text \<open>
  The environment of a run: the build flag \<^verbatim>\<open>TRACK_TOKEN_ALLOCATIONS\<close> and the two
  allocators, each a function of the calls made so far and of its arguments.
  \<^verbatim>\<open>cudaMallocHost\<close> answers \<open>Some p\<close> when it writes \<open>p\<close> to its out-parameter and
  \<open>None\<close> when it writes nothing.
\<close>

record env =
  TRACK_TOKEN_ALLOCATIONS :: bool
  cudaMallocHost :: "call list \<Rightarrow> u64 \<Rightarrow> ptr option"
  cuMemAllocPitch :: "call list \<Rightarrow> u64 \<Rightarrow> u64 \<Rightarrow> u32 \<Rightarrow> pitch_result"

section \<open>Allocation registry\<close>

record AllocInfo =
  info_id :: u64
  info_size :: u64

text \<open>\<^verbatim>\<open>AllocInfo::operator==\<close> compares the id only.\<close>

definition AllocInfo_eq :: "AllocInfo \<Rightarrow> AllocInfo \<Rightarrow> bool" where
  "AllocInfo_eq a other = (info_id a = info_id other)"

record AllocRegister =
  instances :: "AllocInfo list"
  ID :: u64

definition AllocRegister_init :: AllocRegister where
  "AllocRegister_init = \<lparr>instances = [], ID = 0\<rparr>"

definition AddNote :: "u64 \<Rightarrow> AllocRegister \<Rightarrow> u64 \<times> AllocRegister" where
  "AddNote sz r =
     (let i = ID r;
          info = \<lparr>info_id = i, info_size = sz\<rparr>
      in (i, \<lparr>instances = instances r @ [info], ID = ID r + 1\<rparr>))"

text \<open>\<^verbatim>\<open>erase(remove(begin, end, allocInfo), end)\<close> drops every element equal to the note.\<close>

definition DeleteNote :: "AllocInfo \<Rightarrow> AllocRegister \<Rightarrow> AllocRegister" where
  "DeleteNote allocInfo r =
     r\<lparr>instances := filter (\<lambda>x. \<not> AllocInfo_eq x allocInfo) (instances r)\<rparr>"

definition GetSize :: "AllocRegister \<Rightarrow> nat" where
  "GetSize r = length (instances r)"

definition GetNoteByIndex :: "nat \<Rightarrow> AllocRegister \<Rightarrow> AllocInfo option" where
  "GetNoteByIndex idx r =
     (if idx < length (instances r) then Some (instances r ! idx) else None)"

text \<open>The mutable state outside the objects: the two global registers and the trace.\<close>

record world =
  BuffersRegister :: AllocRegister
  HWSurfaceRegister :: AllocRegister
  calls :: "call list"

definition world_init :: world where
  "world_init =
     \<lparr>BuffersRegister = AllocRegister_init, HWSurfaceRegister = AllocRegister_init,
      calls = []\<rparr>"

definition do_call :: "call \<Rightarrow> world \<Rightarrow> world" where
  "do_call c w = w\<lparr>calls := calls w @ [c]\<rparr>"

text \<open>The return value of \<^verbatim>\<open>CheckAllocationCounters\<close> (its printing is left out).\<close>

definition CheckAllocationCounters :: "world \<Rightarrow> bool" where
  "CheckAllocationCounters w =
     (GetSize (BuffersRegister w) = 0 \<and> GetSize (HWSurfaceRegister w) = 0)"

section \<open>Host buffer\<close>

record Buffer =
  mem_size :: u64
  pRawData :: ptr
  own_memory :: bool
  buffer_id :: u64

definition GetRawMemSize :: "Buffer \<Rightarrow> u64" where
  "GetRawMemSize b = mem_size b"

definition GetRawMemPtr :: "Buffer \<Rightarrow> ptr" where
  "GetRawMemPtr b = pRawData b"

definition Buffer_Allocate :: "env \<Rightarrow> Buffer \<Rightarrow> world \<Rightarrow> bool \<times> Buffer \<times> world" where
  "Buffer_Allocate e b w =
     (if GetRawMemSize b \<noteq> 0 then
        let r = cudaMallocHost e (calls w) (GetRawMemSize b);
            w' = do_call (CudaMallocHost (GetRawMemSize b)) w;
            b' = (case r of Some p \<Rightarrow> b\<lparr>pRawData := p\<rparr> | None \<Rightarrow> b)
        in (pRawData b' \<noteq> 0, b', w')
      else (True, b, w))"

definition Buffer_Deallocate :: "Buffer \<Rightarrow> world \<Rightarrow> Buffer \<times> world" where
  "Buffer_Deallocate b w =
     (let w' = (if own_memory b then do_call (CudaFreeHost (pRawData b)) w else w)
      in (b\<lparr>pRawData := 0\<rparr>, w'))"

text \<open>The \<^verbatim>\<open>#ifdef TRACK_TOKEN_ALLOCATIONS\<close> block closing both constructors.\<close>

definition Buffer_note :: "env \<Rightarrow> Buffer \<Rightarrow> world \<Rightarrow> Buffer \<times> world" where
  "Buffer_note e b w =
     (if TRACK_TOKEN_ALLOCATIONS e then
        let (i, r) = AddNote (mem_size b) (BuffersRegister w)
        in (b\<lparr>buffer_id := i\<rparr>, w\<lparr>BuffersRegister := r\<rparr>)
      else (b, w))"

text \<open>
  Modelled from the spec: the in-class initialisers of \<^verbatim>\<open>Buffer\<close> live in
  \<^verbatim>\<open>MemoryInterfaces.hpp\<close>, which is not part of the sources. The spec's
  \<^verbatim>\<open>RawPointer()\<close> is "null if unallocated", so \<^verbatim>\<open>pRawData\<close> starts as null.
\<close>

definition Buffer_fields :: "u64 \<Rightarrow> bool \<Rightarrow> Buffer" where
  "Buffer_fields bufferSize ownMemory =
     \<lparr>mem_size = bufferSize, pRawData = 0, own_memory = ownMemory, buffer_id = 0\<rparr>"

text \<open>\<^verbatim>\<open>Buffer::Buffer(size_t bufferSize, bool ownMemory)\<close>. A constructor that throws
  yields no object; the world it leaves behind is returned beside the error.\<close>

definition Buffer_ctor :: "env \<Rightarrow> u64 \<Rightarrow> bool \<Rightarrow> world \<Rightarrow> (error + Buffer) \<times> world" where
  "Buffer_ctor e bufferSize ownMemory w =
     (let b = Buffer_fields bufferSize ownMemory in
      if own_memory b then
        (case Buffer_Allocate e b w of (ok, b', w') \<Rightarrow>
           if \<not> ok then (Inl bad_alloc, w')
           else (case Buffer_note e b' w' of (b'', w'') \<Rightarrow> (Inr b'', w'')))
      else (case Buffer_note e b w of (b'', w'') \<Rightarrow> (Inr b'', w'')))"

text \<open>\<^verbatim>\<open>Buffer::Buffer(size_t bufferSize, void *pCopyFrom, bool ownMemory)\<close>.\<close>

definition Buffer_ctor_from ::
  "env \<Rightarrow> u64 \<Rightarrow> ptr \<Rightarrow> bool \<Rightarrow> world \<Rightarrow> (error + Buffer) \<times> world" where
  "Buffer_ctor_from e bufferSize pCopyFrom ownMemory w =
     (let b = Buffer_fields bufferSize ownMemory in
      if own_memory b then
        (case Buffer_Allocate e b w of (ok, b', w') \<Rightarrow>
           if ok then
             (case Buffer_note e b' (do_call (Memcpy (GetRawMemPtr b') pCopyFrom bufferSize) w')
              of (b'', w'') \<Rightarrow> (Inr b'', w''))
           else (Inl bad_alloc, w'))
      else (case Buffer_note e (b\<lparr>pRawData := pCopyFrom\<rparr>) w of
              (b'', w'') \<Rightarrow> (Inr b'', w'')))"

text \<open>The three factories: \<^verbatim>\<open>Make(size)\<close>, \<^verbatim>\<open>Make(size, pCopyFrom)\<close>, \<^verbatim>\<open>MakeOwnMem(size)\<close>.\<close>

definition Buffer_Make :: "env \<Rightarrow> u64 \<Rightarrow> world \<Rightarrow> (error + Buffer) \<times> world" where
  "Buffer_Make e bufferSize w = Buffer_ctor e bufferSize False w"

definition Buffer_Make_from :: "env \<Rightarrow> u64 \<Rightarrow> ptr \<Rightarrow> world \<Rightarrow> (error + Buffer) \<times> world" where
  "Buffer_Make_from e bufferSize pCopyFrom w = Buffer_ctor_from e bufferSize pCopyFrom False w"

definition Buffer_MakeOwnMem :: "env \<Rightarrow> u64 \<Rightarrow> world \<Rightarrow> (error + Buffer) \<times> world" where
  "Buffer_MakeOwnMem e bufferSize w = Buffer_ctor e bufferSize True w"

text \<open>\<^verbatim>\<open>Buffer::~Buffer\<close>: the world after the object is gone.\<close>

definition Buffer_dtor :: "env \<Rightarrow> Buffer \<Rightarrow> world \<Rightarrow> world" where
  "Buffer_dtor e b w =
     (case Buffer_Deallocate b w of (b', w') \<Rightarrow>
        if TRACK_TOKEN_ALLOCATIONS e then
          w'\<lparr>BuffersRegister :=
               DeleteNote \<lparr>info_id = buffer_id b', info_size = mem_size b'\<rparr> (BuffersRegister w')\<rparr>
        else w')"

text \<open>\<^verbatim>\<open>Buffer::Update\<close>. The result of \<^verbatim>\<open>Allocate()\<close> is dropped, as in the source.\<close>

definition Buffer_Update :: "env \<Rightarrow> u64 \<Rightarrow> ptr \<Rightarrow> Buffer \<Rightarrow> world \<Rightarrow> Buffer \<times> world" where
  "Buffer_Update e newSize newPtr b w =
     (case Buffer_Deallocate b w of (b1, w1) \<Rightarrow>
        let b2 = b1\<lparr>mem_size := newSize\<rparr> in
        if own_memory b2 then
          (case Buffer_Allocate e b2 w1 of (ok, b3, w3) \<Rightarrow>
             if newPtr \<noteq> 0 then (b3, do_call (Memcpy (GetRawMemPtr b3) newPtr newSize) w3)
             else (b3, w3))
        else (b2\<lparr>pRawData := newPtr\<rparr>, w1))"

section \<open>Device plane\<close>

record SurfacePlane =
  ownMem :: bool
  gpuMem :: ptr
  width :: u32
  height :: u32
  pitch :: u32
  elemSize :: u32
  ctx :: ptr
  plane_id :: u64

text \<open>
  Modelled from the spec: the accessors of \<^verbatim>\<open>SurfacePlane\<close>, its in-class initialisers
  and \<^verbatim>\<open>GetHostMemSize\<close> are declared in \<^verbatim>\<open>MemoryInterfaces.hpp\<close>, which is not part of
  the sources. The spec has them return "stored geometry, no computation", has the host
  mirror size be \<^verbatim>\<open>pitch * height\<close>, and has an unallocated plane hold a null pointer.
\<close>

definition OwnMemory :: "SurfacePlane \<Rightarrow> bool" where
  "OwnMemory p = ownMem p"

definition GpuMem :: "SurfacePlane \<Rightarrow> ptr" where
  "GpuMem p = gpuMem p"

definition GetHostMemSize :: "SurfacePlane \<Rightarrow> u32" where
  "GetHostMemSize p = pitch p * height p"

definition SurfacePlane_fields :: SurfacePlane where
  "SurfacePlane_fields =
     \<lparr>ownMem = False, gpuMem = 0, width = 0, height = 0, pitch = 0, elemSize = 0,
      ctx = 0, plane_id = 0\<rparr>"

text \<open>\<^verbatim>\<open>SurfacePlane::SurfacePlane() = default\<close>.\<close>

definition SurfacePlane_default :: "world \<Rightarrow> SurfacePlane \<times> world" where
  "SurfacePlane_default w = (SurfacePlane_fields, w)"

text \<open>\<^verbatim>\<open>SurfacePlane::SurfacePlane(const SurfacePlane &other)\<close>: six members are
  initialised from \<open>other\<close>; \<^verbatim>\<open>ctx\<close> and the id are not copied.\<close>

definition SurfacePlane_copy :: "SurfacePlane \<Rightarrow> world \<Rightarrow> SurfacePlane \<times> world" where
  "SurfacePlane_copy other w =
     (SurfacePlane_fields
        \<lparr>ownMem := False, gpuMem := gpuMem other, width := width other,
         height := height other, pitch := pitch other, elemSize := elemSize other\<rparr>, w)"

text \<open>The view constructor \<^verbatim>\<open>SurfacePlane(newWidth, newHeight, newPitch, newElemSize, pNewPtr)\<close>.\<close>

definition SurfacePlane_view ::
  "u32 \<Rightarrow> u32 \<Rightarrow> u32 \<Rightarrow> u32 \<Rightarrow> ptr \<Rightarrow> world \<Rightarrow> SurfacePlane \<times> world" where
  "SurfacePlane_view newWidth newHeight newPitch newElemSize pNewPtr w =
     (SurfacePlane_fields
        \<lparr>ownMem := False, gpuMem := pNewPtr, width := newWidth, height := newHeight,
         pitch := newPitch, elemSize := newElemSize\<rparr>, w)"

text \<open>
  \<^verbatim>\<open>SurfacePlane::Allocate\<close>. The product \<^verbatim>\<open>width * elemSize\<close> is taken in 32 bits and
  then widened; the pitch written by the driver is narrowed to 32 bits; the line that
  would throw on a driver error is commented out in the source, so no branch raises.
  Modelled from the spec: \<^verbatim>\<open>CudaCtxPush\<close> is declared in the absent header; the spec has it
  push the context on entry and restore it when the scope is left.
\<close>

definition SurfacePlane_Allocate :: "env \<Rightarrow> SurfacePlane \<Rightarrow> world \<Rightarrow> SurfacePlane \<times> world" where
  "SurfacePlane_Allocate e p w =
     (if \<not> OwnMemory p then (p, w)
      else
        let w1 = do_call (CuCtxPushCurrent (ctx p)) w;
            wb = (ucast (width p * elemSize p) :: u64);
            h = (ucast (height p) :: u64);
            res = cuMemAllocPitch e (calls w1) wb h 16;
            w2 = do_call (CuMemAllocPitch wb h 16) w1;
            p1 = (case res of
                    PitchOk d newPitch \<Rightarrow> p\<lparr>gpuMem := d, pitch := ucast newPitch\<rparr>
                  | PitchFail newPitch \<Rightarrow> p\<lparr>pitch := ucast newPitch\<rparr>);
            (p2, w3) =
              (if TRACK_TOKEN_ALLOCATIONS e then
                 let (i, r) = AddNote (GpuMem p1) (HWSurfaceRegister w2)
                 in (p1\<lparr>plane_id := i\<rparr>, w2\<lparr>HWSurfaceRegister := r\<rparr>)
               else (p1, w2))
        in (p2, do_call CuCtxPopCurrent w3))"

text \<open>\<^verbatim>\<open>SurfacePlane::Deallocate\<close>: no member changes, only the world.\<close>

definition SurfacePlane_Deallocate :: "env \<Rightarrow> SurfacePlane \<Rightarrow> world \<Rightarrow> world" where
  "SurfacePlane_Deallocate e p w =
     (if \<not> OwnMemory p then w
      else
        let w1 = (if TRACK_TOKEN_ALLOCATIONS e then
                    w\<lparr>HWSurfaceRegister :=
                        DeleteNote \<lparr>info_id = plane_id p, info_size = GpuMem p\<rparr>
                          (HWSurfaceRegister w)\<rparr>
                  else w);
            w2 = do_call (CuCtxPushCurrent (ctx p)) w1;
            w3 = do_call (CuMemFree (gpuMem p)) w2
        in do_call CuCtxPopCurrent w3)"

text \<open>The allocating constructor \<^verbatim>\<open>SurfacePlane(newWidth, newHeight, newElemSize, context)\<close>.\<close>

definition SurfacePlane_alloc ::
  "env \<Rightarrow> u32 \<Rightarrow> u32 \<Rightarrow> u32 \<Rightarrow> ptr \<Rightarrow> world \<Rightarrow> SurfacePlane \<times> world" where
  "SurfacePlane_alloc e newWidth newHeight newElemSize context w =
     SurfacePlane_Allocate e
       (SurfacePlane_fields
          \<lparr>ownMem := True, width := newWidth, height := newHeight,
           elemSize := newElemSize, ctx := context\<rparr>) w"

text \<open>\<^verbatim>\<open>SurfacePlane::operator=\<close>: the left-hand side \<open>p\<close> becomes a view of \<open>other\<close>.\<close>

definition SurfacePlane_assign ::
  "env \<Rightarrow> SurfacePlane \<Rightarrow> SurfacePlane \<Rightarrow> world \<Rightarrow> SurfacePlane \<times> world" where
  "SurfacePlane_assign e p other w =
     (let w' = SurfacePlane_Deallocate e p w
      in (p\<lparr>ownMem := False, gpuMem := gpuMem other, width := width other,
            height := height other, pitch := pitch other, elemSize := elemSize other\<rparr>, w'))"

definition SurfacePlane_dtor :: "env \<Rightarrow> SurfacePlane \<Rightarrow> world \<Rightarrow> world" where
  "SurfacePlane_dtor e p w = SurfacePlane_Deallocate e p w"

section \<open>Surface variants\<close>

text \<open>
  Modelled from the spec: the enumeration \<^verbatim>\<open>Pixel_Format\<close> is declared in the absent
  header. The spec names five known tags; \<open>UNDEFINED\<close> stands for any tag outside them.
\<close>

datatype Pixel_Format = UNDEFINED | Y | RGB | NV12 | YUV420 | RGB_PLANAR

text \<open>One constructor per class, carrying the class's plane members in declaration order
  (\<^verbatim>\<open>plane\<close>, or \<^verbatim>\<open>planeY\<close>, \<^verbatim>\<open>planeU\<close>, \<^verbatim>\<open>planeV\<close>).\<close>

datatype Surface =
    SurfaceY SurfacePlane
  | SurfaceNV12 SurfacePlane
  | SurfaceYUV420 SurfacePlane SurfacePlane SurfacePlane
  | SurfaceRGB SurfacePlane
  | SurfaceRGBPlanar SurfacePlane

text \<open>
  Modelled from the spec: \<^verbatim>\<open>NumPlanes()\<close> is defined inline in the absent header. The spec
  fixes \<^verbatim>\<open>PlaneCount()\<close> per variant: Y=1, NV12=1 (one physical allocation, two logical
  regions), YUV420=3, RGB=1, RGB_PLANAR=1.
\<close>

fun NumPlanes :: "Surface \<Rightarrow> u32" where
  "NumPlanes (SurfaceY plane) = 1"
| "NumPlanes (SurfaceNV12 plane) = 1"
| "NumPlanes (SurfaceYUV420 planeY planeU planeV) = 3"
| "NumPlanes (SurfaceRGB plane) = 1"
| "NumPlanes (SurfaceRGBPlanar plane) = 1"

text \<open>
  Modelled from the spec: \<^verbatim>\<open>ElemSize()\<close> is defined inline in the absent header. Every
  format of the spec stores 8-bit samples (RGB is "3 bytes/pixel" in a plane of width
  \<^verbatim>\<open>W*3\<close>), so the element size is one byte for every variant.
\<close>

definition ElemSize :: u32 where
  "ElemSize = 1"

definition invalid_plane :: error where
  "invalid_plane = invalid_argument ''Invalid plane number''"

fun Width :: "Surface \<Rightarrow> u32 \<Rightarrow> error + u32" where
  "Width (SurfaceY plane) planeNumber =
     (if planeNumber < NumPlanes (SurfaceY plane) then Inr (width plane) else Inl invalid_plane)"
| "Width (SurfaceNV12 plane) planeNumber =
     (if planeNumber = 0 \<or> planeNumber = 1 then Inr (width plane) else Inl invalid_plane)"
| "Width (SurfaceYUV420 planeY planeU planeV) planeNumber =
     (if planeNumber = 0 then Inr (width planeY)
      else if planeNumber = 1 then Inr (width planeU)
      else if planeNumber = 2 then Inr (width planeV)
      else Inl invalid_plane)"
| "Width (SurfaceRGB plane) planeNumber =
     (if planeNumber < NumPlanes (SurfaceRGB plane) then Inr (width plane div 3)
      else Inl invalid_plane)"
| "Width (SurfaceRGBPlanar plane) planeNumber =
     (if planeNumber < NumPlanes (SurfaceRGBPlanar plane) then Inr (width plane)
      else Inl invalid_plane)"

fun WidthInBytes :: "Surface \<Rightarrow> u32 \<Rightarrow> error + u32" where
  "WidthInBytes (SurfaceY plane) planeNumber =
     (if planeNumber < NumPlanes (SurfaceY plane) then Inr (width plane * elemSize plane)
      else Inl invalid_plane)"
| "WidthInBytes (SurfaceNV12 plane) planeNumber =
     (if planeNumber = 0 \<or> planeNumber = 1 then Inr (width plane * elemSize plane)
      else Inl invalid_plane)"
| "WidthInBytes (SurfaceYUV420 planeY planeU planeV) planeNumber =
     (if planeNumber = 0 then Inr (width planeY * elemSize planeY)
      else if planeNumber = 1 then Inr (width planeU * elemSize planeU)
      else if planeNumber = 2 then Inr (width planeV * elemSize planeV)
      else Inl invalid_plane)"
| "WidthInBytes (SurfaceRGB plane) planeNumber =
     (if planeNumber < NumPlanes (SurfaceRGB plane) then Inr (width plane * elemSize plane)
      else Inl invalid_plane)"
| "WidthInBytes (SurfaceRGBPlanar plane) planeNumber =
     (if planeNumber < NumPlanes (SurfaceRGBPlanar plane)
      then Inr (width plane * elemSize plane) else Inl invalid_plane)"

fun Height :: "Surface \<Rightarrow> u32 \<Rightarrow> error + u32" where
  "Height (SurfaceY plane) planeNumber =
     (if planeNumber < NumPlanes (SurfaceY plane) then Inr (height plane) else Inl invalid_plane)"
| "Height (SurfaceNV12 plane) planeNumber =
     (if planeNumber = 0 then Inr (height plane * 2 div 3)
      else if planeNumber = 1 then Inr (height plane div 3)
      else Inl invalid_plane)"
| "Height (SurfaceYUV420 planeY planeU planeV) planeNumber =
     (if planeNumber = 0 then Inr (height planeY)
      else if planeNumber = 1 then Inr (height planeU)
      else if planeNumber = 2 then Inr (height planeV)
      else Inl invalid_plane)"
| "Height (SurfaceRGB plane) planeNumber =
     (if planeNumber < NumPlanes (SurfaceRGB plane) then Inr (height plane)
      else Inl invalid_plane)"
| "Height (SurfaceRGBPlanar plane) planeNumber =
     (if planeNumber < NumPlanes (SurfaceRGBPlanar plane) then Inr (height plane div 3)
      else Inl invalid_plane)"

fun Pitch :: "Surface \<Rightarrow> u32 \<Rightarrow> error + u32" where
  "Pitch (SurfaceY plane) planeNumber =
     (if planeNumber < NumPlanes (SurfaceY plane) then Inr (pitch plane) else Inl invalid_plane)"
| "Pitch (SurfaceNV12 plane) planeNumber =
     (if planeNumber = 0 \<or> planeNumber = 1 then Inr (pitch plane) else Inl invalid_plane)"
| "Pitch (SurfaceYUV420 planeY planeU planeV) planeNumber =
     (if planeNumber = 0 then Inr (pitch planeY)
      else if planeNumber = 1 then Inr (pitch planeU)
      else if planeNumber = 2 then Inr (pitch planeV)
      else Inl invalid_plane)"
| "Pitch (SurfaceRGB plane) planeNumber =
     (if planeNumber < NumPlanes (SurfaceRGB plane) then Inr (pitch plane)
      else Inl invalid_plane)"
| "Pitch (SurfaceRGBPlanar plane) planeNumber =
     (if planeNumber < NumPlanes (SurfaceRGBPlanar plane) then Inr (pitch plane)
      else Inl invalid_plane)"

fun HostMemSize :: "Surface \<Rightarrow> u32" where
  "HostMemSize (SurfaceY plane) = GetHostMemSize plane"
| "HostMemSize (SurfaceNV12 plane) = GetHostMemSize plane"
| "HostMemSize (SurfaceYUV420 planeY planeU planeV) =
     GetHostMemSize planeY + GetHostMemSize planeU + GetHostMemSize planeV"
| "HostMemSize (SurfaceRGB plane) = GetHostMemSize plane"
| "HostMemSize (SurfaceRGBPlanar plane) = GetHostMemSize plane"

text \<open>
  \<^verbatim>\<open>PlanePtr\<close>. For NV12 plane 1 the source adds \<^verbatim>\<open>Height() * Pitch()\<close>, a product of two
  \<^verbatim>\<open>uint32_t\<close> taken in 32 bits, to the 64-bit base.
  Modelled from the spec: the default argument of \<^verbatim>\<open>Height()\<close> and \<^verbatim>\<open>Pitch()\<close> is declared
  in the absent header; the spec has the offset be the luma height times the pitch,
  that is plane 0.
\<close>

fun PlanePtr :: "Surface \<Rightarrow> u32 \<Rightarrow> error + ptr" where
  "PlanePtr (SurfaceY plane) planeNumber =
     (if planeNumber < NumPlanes (SurfaceY plane) then Inr (GpuMem plane) else Inl invalid_plane)"
| "PlanePtr (SurfaceNV12 plane) planeNumber =
     (if planeNumber = 0 then Inr (GpuMem plane)
      else if planeNumber = 1 then
        (case Height (SurfaceNV12 plane) 0 of
           Inl err \<Rightarrow> Inl err
         | Inr h \<Rightarrow>
             (case Pitch (SurfaceNV12 plane) 0 of
                Inl err \<Rightarrow> Inl err
              | Inr pt \<Rightarrow> Inr (GpuMem plane + ucast (h * pt))))
      else Inl invalid_plane)"
| "PlanePtr (SurfaceYUV420 planeY planeU planeV) planeNumber =
     (if planeNumber = 0 then Inr (GpuMem planeY)
      else if planeNumber = 1 then Inr (GpuMem planeU)
      else if planeNumber = 2 then Inr (GpuMem planeV)
      else Inl invalid_plane)"
| "PlanePtr (SurfaceRGB plane) planeNumber =
     (if planeNumber < NumPlanes (SurfaceRGB plane) then Inr (GpuMem plane)
      else Inl invalid_plane)"
| "PlanePtr (SurfaceRGBPlanar plane) planeNumber =
     (if planeNumber < NumPlanes (SurfaceRGBPlanar plane) then Inr (GpuMem plane)
      else Inl invalid_plane)"

text \<open>\<^verbatim>\<open>GetSurfacePlane\<close>: \<open>None\<close> is the null pointer.\<close>

fun GetSurfacePlane :: "Surface \<Rightarrow> u32 \<Rightarrow> SurfacePlane option" where
  "GetSurfacePlane (SurfaceY plane) planeNumber =
     (if planeNumber \<noteq> 0 then None else Some plane)"
| "GetSurfacePlane (SurfaceNV12 plane) planeNumber =
     (if planeNumber \<noteq> 0 then None else Some plane)"
| "GetSurfacePlane (SurfaceYUV420 planeY planeU planeV) planeNumber =
     (if planeNumber = 0 then Some planeY
      else if planeNumber = 1 then Some planeU
      else if planeNumber = 2 then Some planeV
      else None)"
| "GetSurfacePlane (SurfaceRGB plane) planeNumber =
     (if planeNumber \<noteq> 0 then None else Some plane)"
| "GetSurfacePlane (SurfaceRGBPlanar plane) planeNumber =
     (if planeNumber \<noteq> 0 then None else Some plane)"

text \<open>The default constructors (\<^verbatim>\<open>= default\<close>): every plane member is
  default-constructed.\<close>

definition SurfaceY_default :: "world \<Rightarrow> Surface \<times> world" where
  "SurfaceY_default w = (case SurfacePlane_default w of (plane, w') \<Rightarrow> (SurfaceY plane, w'))"

definition SurfaceNV12_default :: "world \<Rightarrow> Surface \<times> world" where
  "SurfaceNV12_default w =
     (case SurfacePlane_default w of (plane, w') \<Rightarrow> (SurfaceNV12 plane, w'))"

definition SurfaceYUV420_default :: "world \<Rightarrow> Surface \<times> world" where
  "SurfaceYUV420_default w =
     (case SurfacePlane_default w of (planeY, w1) \<Rightarrow>
      case SurfacePlane_default w1 of (planeU, w2) \<Rightarrow>
      case SurfacePlane_default w2 of (planeV, w3) \<Rightarrow>
        (SurfaceYUV420 planeY planeU planeV, w3))"

definition SurfaceRGB_default :: "world \<Rightarrow> Surface \<times> world" where
  "SurfaceRGB_default w =
     (case SurfacePlane_default w of (plane, w') \<Rightarrow> (SurfaceRGB plane, w'))"

definition SurfaceRGBPlanar_default :: "world \<Rightarrow> Surface \<times> world" where
  "SurfaceRGBPlanar_default w =
     (case SurfacePlane_default w of (plane, w') \<Rightarrow> (SurfaceRGBPlanar plane, w'))"

text \<open>The allocating constructors \<^verbatim>\<open>(width, height, context)\<close>. The plane sizes are
  computed in 32 bits, as the member initialisers do.\<close>

definition SurfaceY_ctor :: "env \<Rightarrow> u32 \<Rightarrow> u32 \<Rightarrow> ptr \<Rightarrow> world \<Rightarrow> Surface \<times> world" where
  "SurfaceY_ctor e wd ht context w =
     (case SurfacePlane_alloc e wd ht ElemSize context w of
        (plane, w') \<Rightarrow> (SurfaceY plane, w'))"

definition SurfaceNV12_ctor :: "env \<Rightarrow> u32 \<Rightarrow> u32 \<Rightarrow> ptr \<Rightarrow> world \<Rightarrow> Surface \<times> world" where
  "SurfaceNV12_ctor e wd ht context w =
     (case SurfacePlane_alloc e wd (ht * 3 div 2) ElemSize context w of
        (plane, w') \<Rightarrow> (SurfaceNV12 plane, w'))"

definition SurfaceYUV420_ctor :: "env \<Rightarrow> u32 \<Rightarrow> u32 \<Rightarrow> ptr \<Rightarrow> world \<Rightarrow> Surface \<times> world" where
  "SurfaceYUV420_ctor e wd ht context w =
     (case SurfacePlane_alloc e wd ht ElemSize context w of (planeY, w1) \<Rightarrow>
      case SurfacePlane_alloc e (wd div 2) (ht div 2) ElemSize context w1 of (planeU, w2) \<Rightarrow>
      case SurfacePlane_alloc e (wd div 2) (ht div 2) ElemSize context w2 of (planeV, w3) \<Rightarrow>
        (SurfaceYUV420 planeY planeU planeV, w3))"

definition SurfaceRGB_ctor :: "env \<Rightarrow> u32 \<Rightarrow> u32 \<Rightarrow> ptr \<Rightarrow> world \<Rightarrow> Surface \<times> world" where
  "SurfaceRGB_ctor e wd ht context w =
     (case SurfacePlane_alloc e (wd * 3) ht ElemSize context w of
        (plane, w') \<Rightarrow> (SurfaceRGB plane, w'))"

definition SurfaceRGBPlanar_ctor :: "env \<Rightarrow> u32 \<Rightarrow> u32 \<Rightarrow> ptr \<Rightarrow> world \<Rightarrow> Surface \<times> world" where
  "SurfaceRGBPlanar_ctor e wd ht context w =
     (case SurfacePlane_alloc e wd (ht * 3) ElemSize context w of
        (plane, w') \<Rightarrow> (SurfaceRGBPlanar plane, w'))"

text \<open>\<^verbatim>\<open>Surface::Make(format)\<close> and \<^verbatim>\<open>Surface::Make(format, newWidth, newHeight, context)\<close>;
  \<open>None\<close> is the null pointer of the \<^verbatim>\<open>default\<close> branch.\<close>

fun Make :: "Pixel_Format \<Rightarrow> world \<Rightarrow> Surface option \<times> world" where
  "Make Y w = (case SurfaceY_default w of (s, w') \<Rightarrow> (Some s, w'))"
| "Make RGB w = (case SurfaceRGB_default w of (s, w') \<Rightarrow> (Some s, w'))"
| "Make NV12 w = (case SurfaceNV12_default w of (s, w') \<Rightarrow> (Some s, w'))"
| "Make YUV420 w = (case SurfaceYUV420_default w of (s, w') \<Rightarrow> (Some s, w'))"
| "Make RGB_PLANAR w = (case SurfaceRGBPlanar_default w of (s, w') \<Rightarrow> (Some s, w'))"
| "Make UNDEFINED w = (None, w)"

fun Make_alloc ::
  "env \<Rightarrow> Pixel_Format \<Rightarrow> u32 \<Rightarrow> u32 \<Rightarrow> ptr \<Rightarrow> world \<Rightarrow> Surface option \<times> world" where
  "Make_alloc e Y newWidth newHeight context w =
     (case SurfaceY_ctor e newWidth newHeight context w of (s, w') \<Rightarrow> (Some s, w'))"
| "Make_alloc e NV12 newWidth newHeight context w =
     (case SurfaceNV12_ctor e newWidth newHeight context w of (s, w') \<Rightarrow> (Some s, w'))"
| "Make_alloc e YUV420 newWidth newHeight context w =
     (case SurfaceYUV420_ctor e newWidth newHeight context w of (s, w') \<Rightarrow> (Some s, w'))"
| "Make_alloc e RGB newWidth newHeight context w =
     (case SurfaceRGB_ctor e newWidth newHeight context w of (s, w') \<Rightarrow> (Some s, w'))"
| "Make_alloc e RGB_PLANAR newWidth newHeight context w =
     (case SurfaceRGBPlanar_ctor e newWidth newHeight context w of (s, w') \<Rightarrow> (Some s, w'))"
| "Make_alloc e UNDEFINED newWidth newHeight context w = (None, w)"

text \<open>\<^verbatim>\<open>Clone()\<close> runs the class's copy constructor, which copy-constructs each plane.\<close>

fun Clone :: "Surface \<Rightarrow> world \<Rightarrow> Surface \<times> world" where
  "Clone (SurfaceY plane) w =
     (case SurfacePlane_copy plane w of (c, w') \<Rightarrow> (SurfaceY c, w'))"
| "Clone (SurfaceNV12 plane) w =
     (case SurfacePlane_copy plane w of (c, w') \<Rightarrow> (SurfaceNV12 c, w'))"
| "Clone (SurfaceYUV420 planeY planeU planeV) w =
     (case SurfacePlane_copy planeY w of (cY, w1) \<Rightarrow>
      case SurfacePlane_copy planeU w1 of (cU, w2) \<Rightarrow>
      case SurfacePlane_copy planeV w2 of (cV, w3) \<Rightarrow> (SurfaceYUV420 cY cU cV, w3))"
| "Clone (SurfaceRGB plane) w =
     (case SurfacePlane_copy plane w of (c, w') \<Rightarrow> (SurfaceRGB c, w'))"
| "Clone (SurfaceRGBPlanar plane) w =
     (case SurfacePlane_copy plane w of (c, w') \<Rightarrow> (SurfaceRGBPlanar c, w'))"

fun Create :: "Surface \<Rightarrow> world \<Rightarrow> Surface \<times> world" where
  "Create (SurfaceY plane) w = SurfaceY_default w"
| "Create (SurfaceNV12 plane) w = SurfaceNV12_default w"
| "Create (SurfaceYUV420 planeY planeU planeV) w = SurfaceYUV420_default w"
| "Create (SurfaceRGB plane) w = SurfaceRGB_default w"
| "Create (SurfaceRGBPlanar plane) w = SurfaceRGBPlanar_default w"

text \<open>\<^verbatim>\<open>Update(SurfacePlane &newPlane)\<close> of the four single-plane classes; the object
  is given by its member \<^verbatim>\<open>plane\<close>.\<close>

definition SurfaceY_Update ::
  "env \<Rightarrow> SurfacePlane \<Rightarrow> SurfacePlane \<Rightarrow> world \<Rightarrow> Surface \<times> world" where
  "SurfaceY_Update e newPlane plane w =
     (case SurfacePlane_assign e plane newPlane w of (p, w') \<Rightarrow> (SurfaceY p, w'))"

definition SurfaceNV12_Update ::
  "env \<Rightarrow> SurfacePlane \<Rightarrow> SurfacePlane \<Rightarrow> world \<Rightarrow> Surface \<times> world" where
  "SurfaceNV12_Update e newPlane plane w =
     (case SurfacePlane_assign e plane newPlane w of (p, w') \<Rightarrow> (SurfaceNV12 p, w'))"

definition SurfaceRGB_Update ::
  "env \<Rightarrow> SurfacePlane \<Rightarrow> SurfacePlane \<Rightarrow> world \<Rightarrow> Surface \<times> world" where
  "SurfaceRGB_Update e newPlane plane w =
     (case SurfacePlane_assign e plane newPlane w of (p, w') \<Rightarrow> (SurfaceRGB p, w'))"

definition SurfaceRGBPlanar_Update ::
  "env \<Rightarrow> SurfacePlane \<Rightarrow> SurfacePlane \<Rightarrow> world \<Rightarrow> Surface \<times> world" where
  "SurfaceRGBPlanar_Update e newPlane plane w =
     (case SurfacePlane_assign e plane newPlane w of (p, w') \<Rightarrow> (SurfaceRGBPlanar p, w'))"

text \<open>\<^verbatim>\<open>SurfaceYUV420::Update(newPlaneY, newPlaneU, newPlaneV)\<close>, statement by statement:
  \<^verbatim>\<open>planeY = newPlaneY; planeU = newPlaneY; planeV = newPlaneV;\<close>
  The object is given by its members \<^verbatim>\<open>planeY\<close>, \<^verbatim>\<open>planeU\<close>, \<^verbatim>\<open>planeV\<close>.\<close>

definition SurfaceYUV420_Update ::
  "env \<Rightarrow> SurfacePlane \<Rightarrow> SurfacePlane \<Rightarrow> SurfacePlane \<Rightarrow>
   SurfacePlane \<Rightarrow> SurfacePlane \<Rightarrow> SurfacePlane \<Rightarrow> world \<Rightarrow> Surface \<times> world" where
  "SurfaceYUV420_Update e newPlaneY newPlaneU newPlaneV planeY planeU planeV w =
     (case SurfacePlane_assign e planeY newPlaneY w of (pY, w1) \<Rightarrow>
      case SurfacePlane_assign e planeU newPlaneY w1 of (pU, w2) \<Rightarrow>
      case SurfacePlane_assign e planeV newPlaneV w2 of (pV, w3) \<Rightarrow>
        (SurfaceYUV420 pY pU pV, w3))"

section \<open>Notions used to state the properties\<close>

text \<open>The plane members of a surface, in declaration order.\<close>

fun planes :: "Surface \<Rightarrow> SurfacePlane list" where
  "planes (SurfaceY plane) = [plane]"
| "planes (SurfaceNV12 plane) = [plane]"
| "planes (SurfaceYUV420 planeY planeU planeV) = [planeY, planeU, planeV]"
| "planes (SurfaceRGB plane) = [plane]"
| "planes (SurfaceRGBPlanar plane) = [plane]"

text \<open>
  The number of logical planes: how many plane indices the geometry queries of a variant
  accept. The \<^verbatim>\<open>switch\<close> of every NV12 query has the cases 0 and 1, that of every YUV420
  query the cases 0, 1 and 2; the other three classes compare with \<^verbatim>\<open>NumPlanes()\<close>.
\<close>

fun LogicalPlanes :: "Surface \<Rightarrow> u32" where
  "LogicalPlanes (SurfaceY plane) = NumPlanes (SurfaceY plane)"
| "LogicalPlanes (SurfaceNV12 plane) = 2"
| "LogicalPlanes (SurfaceYUV420 planeY planeU planeV) = 3"
| "LogicalPlanes (SurfaceRGB plane) = NumPlanes (SurfaceRGB plane)"
| "LogicalPlanes (SurfaceRGBPlanar plane) = NumPlanes (SurfaceRGBPlanar plane)"

text \<open>\<^verbatim>\<open>WidthInBytes(i) * Height(i)\<close> as a natural number, and its sum over the logical
  planes.\<close>

definition plane_bytes :: "Surface \<Rightarrow> u32 \<Rightarrow> nat" where
  "plane_bytes s i =
     (case WidthInBytes s i of
        Inl err \<Rightarrow> 0
      | Inr wb \<Rightarrow> (case Height s i of Inl err \<Rightarrow> 0 | Inr h \<Rightarrow> unat wb * unat h))"

definition logical_bytes :: "Surface \<Rightarrow> nat" where
  "logical_bytes s = sum_list (map (\<lambda>i. plane_bytes s (of_nat i)) [0..<unat (LogicalPlanes s)])"

text \<open>\<open>N\<close> successive clones of one surface.\<close>

fun clone_times :: "nat \<Rightarrow> Surface \<Rightarrow> world \<Rightarrow> Surface list \<times> world" where
  "clone_times 0 s w = ([], w)"
| "clone_times (Suc n) s w =
     (case Clone s w of (c, w1) \<Rightarrow>
      case clone_times n s w1 of (cs, w2) \<Rightarrow> (c # cs, w2))"

text \<open>Three environments for concrete runs: allocators that fail, and allocators that
  succeed (pinned memory at \<open>0x7000\<close>; device memory at \<open>0x10000\<close> with the requested
  row size rounded up to a multiple of 512 as pitch).\<close>

definition env_fail :: env where
  "env_fail =
     \<lparr>TRACK_TOKEN_ALLOCATIONS = True,
      cudaMallocHost = (\<lambda>cs n. None),
      cuMemAllocPitch = (\<lambda>cs wb h al. PitchFail 0)\<rparr>"

definition env_ok :: env where
  "env_ok =
     \<lparr>TRACK_TOKEN_ALLOCATIONS = True,
      cudaMallocHost = (\<lambda>cs n. Some 0x7000),
      cuMemAllocPitch = (\<lambda>cs wb h al. PitchOk 0x10000 ((wb + 511) div 512 * 512))\<rparr>"

text \<open>An allocator that honours a request of \<open>65536\<close> bytes per row exactly.\<close>

definition env_tight :: env where
  "env_tight =
     \<lparr>TRACK_TOKEN_ALLOCATIONS = True,
      cudaMallocHost = (\<lambda>cs n. Some 0x7000),
      cuMemAllocPitch = (\<lambda>cs wb h al. PitchOk 0x10000 wb)\<rparr>"

text \<open>Three view planes over distinct device regions, and an owning plane and an
  allocated tri-planar surface obtained from the succeeding allocator.\<close>

definition view_Y :: SurfacePlane where
  "view_Y = fst (SurfacePlane_view 640 480 1024 1 0x1000 world_init)"

definition view_U :: SurfacePlane where
  "view_U = fst (SurfacePlane_view 320 240 512 1 0x2000 world_init)"

definition view_V :: SurfacePlane where
  "view_V = fst (SurfacePlane_view 320 240 512 1 0x3000 world_init)"

definition owner_plane :: SurfacePlane where
  "owner_plane = fst (SurfacePlane_alloc env_ok 640 480 1 0 world_init)"

definition owner_world :: world where
  "owner_world = snd (SurfacePlane_alloc env_ok 640 480 1 0 world_init)"

definition yuv_surface :: Surface where
  "yuv_surface = fst (SurfaceYUV420_ctor env_ok 640 480 0 world_init)"

definition yuv_world :: world where
  "yuv_world = snd (SurfaceYUV420_ctor env_ok 640 480 0 world_init)"

section \<open>Unfolding rules and arithmetic facts\<close>

lemmas buffer_defs = Buffer_ctor_def Buffer_ctor_from_def Buffer_fields_def Buffer_Allocate_def
  Buffer_note_def Buffer_Deallocate_def Buffer_Update_def GetRawMemSize_def GetRawMemPtr_def
  do_call_def AddNote_def Buffer_Make_def Buffer_Make_from_def Buffer_MakeOwnMem_def

lemmas plane_defs = SurfacePlane_alloc_def SurfacePlane_Allocate_def SurfacePlane_Deallocate_def
  SurfacePlane_assign_def SurfacePlane_copy_def SurfacePlane_view_def SurfacePlane_fields_def
  SurfacePlane_default_def OwnMemory_def GpuMem_def do_call_def AddNote_def DeleteNote_def

lemmas surface_ctor_defs = SurfaceY_ctor_def SurfaceNV12_ctor_def SurfaceYUV420_ctor_def
  SurfaceRGB_ctor_def SurfaceRGBPlanar_ctor_def ElemSize_def

lemmas run_defs = env_ok_def env_fail_def env_tight_def world_init_def AllocRegister_init_def
  view_Y_def view_U_def view_V_def owner_plane_def owner_world_def yuv_surface_def yuv_world_def

text \<open>Comparisons of a plane index with the small constants of the queries.\<close>

lemma word_less_2_cases: "(n::u32) < 2 \<longleftrightarrow> n = 0 \<or> n = 1"
proof
  assume "n < 2"
  then have "unat n < 2" by (simp add: word_less_nat_alt)
  then have "unat n = 0 \<or> unat n = 1" by arith
  then show "n = 0 \<or> n = 1"
    by (auto simp: word_unat_eq_iff)
next
  assume "n = 0 \<or> n = 1"
  then show "n < 2" by auto
qed

lemma word_less_3_cases: "(n::u32) < 3 \<longleftrightarrow> n = 0 \<or> n = 1 \<or> n = 2"
proof
  assume "n < 3"
  then have "unat n < 3" by (simp add: word_less_nat_alt)
  then have "unat n = 0 \<or> unat n = 1 \<or> unat n = 2" by arith
  then show "n = 0 \<or> n = 1 \<or> n = 2"
    by (auto simp: word_unat_eq_iff)
next
  assume "n = 0 \<or> n = 1 \<or> n = 2"
  then show "n < 3" by auto
qed

text \<open>The 32-bit products and quotients of the constructors and of the NV12 and planar
  RGB height queries, when \<open>3 * H\<close> fits into 32 bits.\<close>

lemma unat_times3:
  assumes "3 * unat (W::u32) < 2 ^ 32"
  shows "unat (W * 3) = 3 * unat W"
  using assms by (simp add: unat_mult_lem [THEN iffD1])

lemma times3_div3:
  assumes "3 * unat (H::u32) < 2 ^ 32"
  shows "H * 3 div 3 = H"
proof -
  have "unat (H * 3 div 3) = unat H"
    by (simp add: unat_div unat_times3 [OF assms])
  then show ?thesis by (simp add: word_unat_eq_iff)
qed

lemma nv12_chroma_height:
  assumes "3 * unat (H::u32) < 2 ^ 32"
  shows "H * 3 div 2 div 3 = H div 2"
proof -
  have "unat (H * 3 div 2 div 3) = 3 * unat H div 2 div 3"
    by (simp add: unat_div unat_times3 [OF assms])
  also have "\<dots> = unat H div 2" by arith
  also have "\<dots> = unat (H div 2)" by (simp add: unat_div)
  finally show ?thesis by (simp add: word_unat_eq_iff)
qed

lemma nv12_luma_height:
  assumes "3 * unat (H::u32) < 2 ^ 32" and "even (unat H)"
  shows "H * 3 div 2 * 2 div 3 = H"
proof -
  obtain k where k: "unat H = 2 * k" using assms(2) by (auto elim: evenE)
  have d: "unat (H * 3 div 2) = 3 * k"
    by (simp add: unat_div unat_times3 [OF assms(1)] k)
  have "unat (H * 3 div 2) * unat (2::u32) < 2 ^ 32"
    using assms(1) by (simp add: d k)
  then have m2: "unat (H * 3 div 2 * 2) = 3 * k * 2"
    by (simp add: unat_mult_lem [THEN iffD1] d)
  have "unat (H * 3 div 2 * 2 div 3) = unat H"
    by (simp add: unat_div m2 k)
  then show ?thesis by (simp add: word_unat_eq_iff)
qed

text \<open>A 32-bit product widened to 64 bits is the product of the values modulo \<open>2^32\<close>.\<close>

lemma ucast_mult_wrap:
  "(ucast ((a::u32) * b) :: u64) = of_nat (unat a * unat b mod 2 ^ 32)"
proof -
  have "unat (a * b) = unat a * unat b mod 2 ^ 32"
    by (simp add: unat_word_ariths)
  then show ?thesis by (metis of_nat_unat)
qed

section \<open>Facts about planes and surfaces\<close>

text \<open>The allocating plane constructor always returns an owning plane with the requested
  geometry, whatever the driver answers.\<close>

lemma SurfacePlane_alloc_geometry:
  "\<exists>p w'. SurfacePlane_alloc e newWidth newHeight newElemSize context w = (p, w')
      \<and> width p = newWidth \<and> height p = newHeight \<and> elemSize p = newElemSize \<and> ownMem p"
  by (auto simp: plane_defs Let_def split: prod.splits pitch_result.splits)

lemma Clone_is_view:
  "\<exists>c. Clone s w = (c, w) \<and> (\<forall>pl \<in> set (planes c). \<not> OwnMemory pl)
      \<and> map GpuMem (planes c) = map GpuMem (planes s)"
  by (cases s) (simp_all add: SurfacePlane_copy_def SurfacePlane_fields_def OwnMemory_def GpuMem_def)

lemma clone_times_views:
  "\<exists>cs. clone_times N s w = (cs, w) \<and> length cs = N
      \<and> (\<forall>c \<in> set cs. (\<forall>pl \<in> set (planes c). \<not> OwnMemory pl)
            \<and> map GpuMem (planes c) = map GpuMem (planes s))"
proof (induction N)
  case 0
  show ?case by simp
next
  case (Suc N)
  obtain cs where cs: "clone_times N s w = (cs, w)" "length cs = N"
    "\<forall>c \<in> set cs. (\<forall>pl \<in> set (planes c). \<not> OwnMemory pl)
            \<and> map GpuMem (planes c) = map GpuMem (planes s)"
    using Suc.IH by blast
  obtain c where c: "Clone s w = (c, w)" "\<forall>pl \<in> set (planes c). \<not> OwnMemory pl"
    "map GpuMem (planes c) = map GpuMem (planes s)"
    using Clone_is_view [of s w] by blast
  have "clone_times (Suc N) s w = (c # cs, w)" by (simp add: c cs)
  then show ?case using c cs by auto
qed

lemma SurfacePlane_assign_view:
  "\<exists>p' w'. SurfacePlane_assign e p other w = (p', w')
      \<and> \<not> OwnMemory p' \<and> GpuMem p' = GpuMem other
      \<and> calls w' = calls w @
           (if OwnMemory p
            then [CuCtxPushCurrent (ctx p), CuMemFree (GpuMem p), CuCtxPopCurrent] else [])
      \<and> instances (HWSurfaceRegister w') =
           (if OwnMemory p \<and> TRACK_TOKEN_ALLOCATIONS e
            then filter (\<lambda>x. info_id x \<noteq> plane_id p) (instances (HWSurfaceRegister w))
            else instances (HWSurfaceRegister w))"
  by (auto simp: plane_defs Let_def AllocInfo_eq_def)

lemma upt_two: "[0..<2] = [0, Suc 0]"
  by (simp add: upt_rec)

lemma upt_three: "[0..<3] = [0, Suc 0, 2]"
  by (simp add: upt_rec)

lemma logical_bytes_Y:
  "logical_bytes (SurfaceY p) = unat (width p * elemSize p) * unat (height p)"
  by (simp add: logical_bytes_def plane_bytes_def)

lemma logical_bytes_RGB:
  "logical_bytes (SurfaceRGB p) = unat (width p * elemSize p) * unat (height p)"
  by (simp add: logical_bytes_def plane_bytes_def)

lemma logical_bytes_RGBPlanar:
  "logical_bytes (SurfaceRGBPlanar p) = unat (width p * elemSize p) * unat (height p div 3)"
  by (simp add: logical_bytes_def plane_bytes_def)

lemma logical_bytes_NV12:
  "logical_bytes (SurfaceNV12 p) =
     unat (width p * elemSize p) * unat (height p * 2 div 3)
     + unat (width p * elemSize p) * unat (height p div 3)"
  by (simp add: logical_bytes_def plane_bytes_def upt_two)

lemma logical_bytes_YUV420:
  "logical_bytes (SurfaceYUV420 pY pU pV) =
     unat (width pY * elemSize pY) * unat (height pY)
     + unat (width pU * elemSize pU) * unat (height pU)
     + unat (width pV * elemSize pV) * unat (height pV)"
  by (simp add: logical_bytes_def plane_bytes_def upt_three)

lemma bytes_Y:
  "\<exists>s w'. Make_alloc e Y W H context w = (Some s, w') \<and> logical_bytes s = unat W * unat H"
proof -
  obtain p w' where a: "SurfacePlane_alloc e W H ElemSize context w = (p, w')"
    and g: "width p = W" "height p = H" "elemSize p = ElemSize"
    using SurfacePlane_alloc_geometry [of e W H ElemSize "context" w] by blast
  have "Make_alloc e Y W H context w = (Some (SurfaceY p), w')"
    by (simp add: SurfaceY_ctor_def a)
  moreover have "logical_bytes (SurfaceY p) = unat W * unat H"
    by (simp add: logical_bytes_Y g ElemSize_def)
  ultimately show ?thesis by blast
qed

lemma bytes_NV12:
  assumes "3 * unat H < 2 ^ 32" and "even (unat H)"
  shows "\<exists>s w'. Make_alloc e NV12 W H context w = (Some s, w')
           \<and> logical_bytes s = unat W * unat H + unat W * (unat H div 2)"
proof -
  obtain p w' where a: "SurfacePlane_alloc e W (H * 3 div 2) ElemSize context w = (p, w')"
    and g: "width p = W" "height p = H * 3 div 2" "elemSize p = ElemSize"
    using SurfacePlane_alloc_geometry [of e W "H * 3 div 2" ElemSize "context" w] by blast
  have "Make_alloc e NV12 W H context w = (Some (SurfaceNV12 p), w')"
    by (simp add: SurfaceNV12_ctor_def a)
  moreover have "logical_bytes (SurfaceNV12 p) = unat W * unat H + unat W * (unat H div 2)"
    using assms
    by (simp add: logical_bytes_NV12 g ElemSize_def nv12_chroma_height nv12_luma_height unat_div)
  ultimately show ?thesis by blast
qed

lemma bytes_YUV420:
  "\<exists>s w'. Make_alloc e YUV420 W H context w = (Some s, w')
      \<and> logical_bytes s = unat W * unat H + 2 * (unat W div 2) * (unat H div 2)"
proof -
  obtain pY w1 where a: "SurfacePlane_alloc e W H ElemSize context w = (pY, w1)"
    and g: "width pY = W" "height pY = H" "elemSize pY = ElemSize"
    using SurfacePlane_alloc_geometry [of e W H ElemSize "context" w] by blast
  obtain pU w2 where b: "SurfacePlane_alloc e (W div 2) (H div 2) ElemSize context w1 = (pU, w2)"
    and gU: "width pU = W div 2" "height pU = H div 2" "elemSize pU = ElemSize"
    using SurfacePlane_alloc_geometry [of e "W div 2" "H div 2" ElemSize "context" w1] by blast
  obtain pV w3 where c: "SurfacePlane_alloc e (W div 2) (H div 2) ElemSize context w2 = (pV, w3)"
    and gV: "width pV = W div 2" "height pV = H div 2" "elemSize pV = ElemSize"
    using SurfacePlane_alloc_geometry [of e "W div 2" "H div 2" ElemSize "context" w2] by blast
  have "Make_alloc e YUV420 W H context w = (Some (SurfaceYUV420 pY pU pV), w3)"
    by (simp add: SurfaceYUV420_ctor_def a b c)
  moreover have "logical_bytes (SurfaceYUV420 pY pU pV)
      = unat W * unat H + 2 * (unat W div 2) * (unat H div 2)"
    by (simp add: logical_bytes_YUV420 g gU gV ElemSize_def unat_div)
  ultimately show ?thesis by blast
qed

lemma bytes_RGB:
  assumes "3 * unat W < 2 ^ 32"
  shows "\<exists>s w'. Make_alloc e RGB W H context w = (Some s, w')
           \<and> logical_bytes s = 3 * unat W * unat H"
proof -
  obtain p w' where a: "SurfacePlane_alloc e (W * 3) H ElemSize context w = (p, w')"
    and g: "width p = W * 3" "height p = H" "elemSize p = ElemSize"
    using SurfacePlane_alloc_geometry [of e "W * 3" H ElemSize "context" w] by blast
  have "Make_alloc e RGB W H context w = (Some (SurfaceRGB p), w')"
    by (simp add: SurfaceRGB_ctor_def a)
  moreover have "logical_bytes (SurfaceRGB p) = 3 * unat W * unat H"
    using assms by (simp add: logical_bytes_RGB g ElemSize_def unat_times3)
  ultimately show ?thesis by blast
qed

lemma bytes_RGBPlanar:
  assumes "3 * unat H < 2 ^ 32"
  shows "\<exists>s w'. Make_alloc e RGB_PLANAR W H context w = (Some s, w')
           \<and> logical_bytes s = unat W * unat H"
proof -
  obtain p w' where a: "SurfacePlane_alloc e W (H * 3) ElemSize context w = (p, w')"
    and g: "width p = W" "height p = H * 3" "elemSize p = ElemSize"
    using SurfacePlane_alloc_geometry [of e W "H * 3" ElemSize "context" w] by blast
  have "Make_alloc e RGB_PLANAR W H context w = (Some (SurfaceRGBPlanar p), w')"
    by (simp add: SurfaceRGBPlanar_ctor_def a)
  moreover have "logical_bytes (SurfaceRGBPlanar p) = unat W * unat H"
    using assms by (simp add: logical_bytes_RGBPlanar g ElemSize_def times3_div3)
  ultimately show ?thesis by blast
qed

section \<open>The claims\<close>

subsection \<open>C1: Update of a tri-planar surface\<close>

text \<open>
  Claim C1 says that \<^verbatim>\<open>SurfaceYUV420::Update(newPlaneY, newPlaneU, newPlaneV)\<close> makes the
  U plane a view of \<^verbatim>\<open>newPlaneU\<close>. The second assignment of the source reads
  \<^verbatim>\<open>newPlaneY\<close>: run on a default surface with three views over the distinct regions
  \<open>0x1000\<close>, \<open>0x2000\<close>, \<open>0x3000\<close>, the U plane afterwards points at \<open>0x1000\<close>, the region
  of \<^verbatim>\<open>newPlaneY\<close>, not at the region of \<^verbatim>\<open>newPlaneU\<close>, and has the luma width 640
  where \<^verbatim>\<open>newPlaneU\<close> has 320; the Y and V planes are as the claim says.
\<close>

theorem SurfaceYUV420_Update_planeU_reads_newPlaneY:
  "PlanePtr (fst (SurfaceYUV420_Update env_ok view_Y view_U view_V
       SurfacePlane_fields SurfacePlane_fields SurfacePlane_fields world_init)) 0 = Inr 0x1000
   \<and> PlanePtr (fst (SurfaceYUV420_Update env_ok view_Y view_U view_V
       SurfacePlane_fields SurfacePlane_fields SurfacePlane_fields world_init)) 1 = Inr 0x1000
   \<and> PlanePtr (fst (SurfaceYUV420_Update env_ok view_Y view_U view_V
       SurfacePlane_fields SurfacePlane_fields SurfacePlane_fields world_init)) 2 = Inr 0x3000
   \<and> GpuMem view_U = 0x2000
   \<and> PlanePtr (fst (SurfaceYUV420_Update env_ok view_Y view_U view_V
       SurfacePlane_fields SurfacePlane_fields SurfacePlane_fields world_init)) 1
        \<noteq> Inr (GpuMem view_U)
   \<and> Width (fst (SurfaceYUV420_Update env_ok view_Y view_U view_V
       SurfacePlane_fields SurfacePlane_fields SurfacePlane_fields world_init)) 1 = Inr 640
   \<and> width view_U = 320"
  by (simp add: SurfaceYUV420_Update_def plane_defs run_defs)

subsection \<open>C2: geometry of an allocated NV12 surface\<close>

text \<open>
  Claim C2, amended. An NV12 surface allocated with \<open>(W, H)\<close> reports
  \<open>Width(0) = Width(1) = W\<close> for every \<open>W\<close> and \<open>H\<close>; \<open>Height(1) = H / 2\<close> when \<open>3 * H\<close>
  fits into 32 bits; \<open>Height(0) = H\<close> when moreover \<open>H\<close> is even; and
  \<open>PlanePtr(1) = PlanePtr(0) + (Height(0) * Pitch(0) mod 2^32)\<close>, the product being the
  32-bit one of the source. This holds whatever the driver answers to the allocation.
\<close>

theorem SurfaceNV12_geometry:
  "\<exists>s w'. Make_alloc e NV12 W H context w = (Some s, w')
     \<and> Width s 0 = Inr W \<and> Width s 1 = Inr W
     \<and> (3 * unat H < 2 ^ 32 \<longrightarrow> Height s 1 = Inr (H div 2))
     \<and> (3 * unat H < 2 ^ 32 \<and> even (unat H) \<longrightarrow> Height s 0 = Inr H)
     \<and> (\<exists>p0 h0 pt0. PlanePtr s 0 = Inr p0 \<and> Height s 0 = Inr h0 \<and> Pitch s 0 = Inr pt0
           \<and> PlanePtr s 1 = Inr (p0 + of_nat (unat h0 * unat pt0 mod 2 ^ 32)))"
proof -
  obtain p w' where a: "SurfacePlane_alloc e W (H * 3 div 2) ElemSize context w = (p, w')"
    and g: "width p = W" "height p = H * 3 div 2"
    using SurfacePlane_alloc_geometry [of e W "H * 3 div 2" ElemSize "context" w] by blast
  have "Make_alloc e NV12 W H context w = (Some (SurfaceNV12 p), w')"
    by (simp add: SurfaceNV12_ctor_def a)
  moreover have "Width (SurfaceNV12 p) 0 = Inr W \<and> Width (SurfaceNV12 p) 1 = Inr W"
    by (simp add: g)
  moreover have "3 * unat H < 2 ^ 32 \<longrightarrow> Height (SurfaceNV12 p) 1 = Inr (H div 2)"
    by (simp add: g nv12_chroma_height)
  moreover have "3 * unat H < 2 ^ 32 \<and> even (unat H) \<longrightarrow> Height (SurfaceNV12 p) 0 = Inr H"
    by (simp add: g nv12_luma_height)
  moreover have "PlanePtr (SurfaceNV12 p) 0 = Inr (GpuMem p)
      \<and> Height (SurfaceNV12 p) 0 = Inr (height p * 2 div 3)
      \<and> Pitch (SurfaceNV12 p) 0 = Inr (pitch p)
      \<and> PlanePtr (SurfaceNV12 p) 1
          = Inr (GpuMem p + of_nat (unat (height p * 2 div 3) * unat (pitch p) mod 2 ^ 32))"
    by (simp add: ucast_mult_wrap)
  ultimately show ?thesis by blast
qed

text \<open>The spec's example, \<open>640 \<times> 480\<close>: the chroma block starts \<open>480 * 1024\<close> bytes after
  the luma block at \<open>0x10000\<close>.\<close>

theorem SurfaceNV12_geometry_witness:
  "3 * unat (480::u32) < 2 ^ 32 \<and> even (unat (480::u32)) \<and>
   (\<exists>s w'. Make_alloc env_ok NV12 640 480 0 world_init = (Some s, w')
     \<and> Width s 0 = Inr 640 \<and> Width s 1 = Inr 640
     \<and> Height s 1 = Inr 240 \<and> Height s 0 = Inr 480
     \<and> PlanePtr s 0 = Inr 0x10000 \<and> Pitch s 0 = Inr 1024 \<and> PlanePtr s 1 = Inr 0x88000)"
  using SurfaceNV12_geometry [of env_ok 640 480 0 world_init]
  by (simp add: surface_ctor_defs plane_defs run_defs Let_def)

text \<open>
  The claim as stated fails for an odd height: with \<open>H = 3\<close> the plane has 4 rows and
  \<open>Height(0)\<close> is 2. It fails when \<open>3 * H\<close> wraps: with \<open>H = 2^31\<close>, \<open>Height(0)\<close> is
  715827882. And the offset of plane 1 is a 32-bit product: with 65536 rows of pitch
  65536 it is 0, so both planes report the same address.
\<close>

theorem SurfaceNV12_geometry_counterexample:
  "Height (fst (SurfaceNV12_ctor env_ok 2 3 0 world_init)) 0 = Inr 2 \<and>
   Height (fst (SurfaceNV12_ctor env_ok 2 3 0 world_init)) 0 \<noteq> Inr 3 \<and>
   Height (fst (SurfaceNV12_ctor env_ok 2 2147483648 0 world_init)) 0 = Inr 715827882 \<and>
   Height (fst (SurfaceNV12_ctor env_tight 65536 65536 0 world_init)) 0 = Inr 65536 \<and>
   Pitch (fst (SurfaceNV12_ctor env_tight 65536 65536 0 world_init)) 0 = Inr 65536 \<and>
   PlanePtr (fst (SurfaceNV12_ctor env_tight 65536 65536 0 world_init)) 0 = Inr 0x10000 \<and>
   PlanePtr (fst (SurfaceNV12_ctor env_tight 65536 65536 0 world_init)) 1 = Inr 0x10000 \<and>
   (0x10000 :: u64) + 65536 * 65536 \<noteq> 0x10000"
  by (simp add: surface_ctor_defs plane_defs run_defs Let_def)

subsection \<open>C3: the two-argument buffer factory\<close>

text \<open>
  Claim C3, amended. \<^verbatim>\<open>Buffer::Make(size, pCopyFrom)\<close> passes \<^verbatim>\<open>ownMemory = false\<close>: it
  returns a non-owning buffer whose pointer is \<^verbatim>\<open>pCopyFrom\<close> and whose size is \<open>size\<close>,
  calls neither the allocator nor \<^verbatim>\<open>memcpy\<close>, and never fails. Allocation and copy belong
  to the constructor with \<^verbatim>\<open>ownMemory = true\<close>: for a non-zero size it calls the pinned
  allocator for \<open>size\<close> bytes and then copies \<open>size\<close> bytes from \<^verbatim>\<open>pCopyFrom\<close> into the
  region returned, and it throws \<^verbatim>\<open>bad_alloc\<close> when the allocator returns no memory.
\<close>

theorem Buffer_Make_from_is_view:
  "(\<exists>b w'. Buffer_Make_from e bufferSize pCopyFrom w = (Inr b, w')
       \<and> \<not> own_memory b \<and> GetRawMemPtr b = pCopyFrom \<and> GetRawMemSize b = bufferSize
       \<and> calls w' = calls w) \<and>
   (bufferSize \<noteq> 0 \<longrightarrow>
      (\<forall>p. cudaMallocHost e (calls w) bufferSize = Some p \<and> p \<noteq> 0 \<longrightarrow>
         (\<exists>b w'. Buffer_ctor_from e bufferSize pCopyFrom True w = (Inr b, w')
            \<and> own_memory b \<and> GetRawMemPtr b = p \<and> GetRawMemSize b = bufferSize
            \<and> calls w' = calls w @ [CudaMallocHost bufferSize, Memcpy p pCopyFrom bufferSize])) \<and>
      (cudaMallocHost e (calls w) bufferSize = None
         \<or> cudaMallocHost e (calls w) bufferSize = Some 0 \<longrightarrow>
         fst (Buffer_ctor_from e bufferSize pCopyFrom True w) = Inl bad_alloc))"
  by (auto simp: buffer_defs Let_def split: prod.splits option.splits)

theorem Buffer_Make_from_is_view_witness:
  "(4::u64) \<noteq> 0 \<and> cudaMallocHost env_ok (calls world_init) 4 = Some 0x7000 \<and>
   (0x7000::u64) \<noteq> 0 \<and>
   (\<exists>b w'. Buffer_Make_from env_ok 4 0x5000 world_init = (Inr b, w')
       \<and> \<not> own_memory b \<and> GetRawMemPtr b = 0x5000 \<and> GetRawMemSize b = 4 \<and> calls w' = []) \<and>
   (\<exists>b w'. Buffer_ctor_from env_ok 4 0x5000 True world_init = (Inr b, w')
       \<and> own_memory b \<and> GetRawMemPtr b = 0x7000 \<and> GetRawMemSize b = 4
       \<and> calls w' = [CudaMallocHost 4, Memcpy 0x7000 0x5000 4]) \<and>
   cudaMallocHost env_fail (calls world_init) 4 = None \<and>
   fst (Buffer_ctor_from env_fail 4 0x5000 True world_init) = Inl bad_alloc"
  using Buffer_Make_from_is_view [of env_ok 4 "0x5000" world_init]
    Buffer_Make_from_is_view [of env_fail 4 "0x5000" world_init]
  by (simp add: run_defs)

text \<open>
  The claim as stated fails: with an allocator that returns no memory, the factory
  still succeeds, the buffer's pointer is the source pointer \<open>0x5000\<close> itself, and the
  trace holds no call: nothing was allocated and nothing copied.
\<close>

theorem Buffer_Make_from_counterexample:
  "cudaMallocHost env_fail (calls world_init) 4 = None \<and>
   fst (Buffer_Make_from env_fail 4 0x5000 world_init)
     = Inr \<lparr>mem_size = 4, pRawData = 0x5000, own_memory = False, buffer_id = 0\<rparr> \<and>
   fst (Buffer_Make_from env_fail 4 0x5000 world_init) \<noteq> Inl bad_alloc \<and>
   calls (snd (Buffer_Make_from env_fail 4 0x5000 world_init)) = []"
  by (simp add: buffer_defs run_defs Let_def)

subsection \<open>C4: copies, assignments and clones are views\<close>

text \<open>
  Claim C4. Copy-constructing a device plane leaves the world as it is and yields a
  non-owning plane with the source's device pointer. Assigning to a plane yields a
  non-owning plane with the source's device pointer; it makes no allocation call; if the
  left-hand side owned memory, that memory is freed first (context push,
  \<^verbatim>\<open>cuMemFree\<close> of the old pointer, context pop) and its note leaves the register.
  \<open>N\<close> clones of a surface, for every \<open>N\<close>, leave both registers and the trace
  unchanged, so the live allocation count is the one before, and every plane of every
  clone is a non-owning view of the corresponding plane of the original.
\<close>

theorem copies_are_views:
  "(\<exists>c. SurfacePlane_copy src w1 = (c, w1) \<and> \<not> OwnMemory c \<and> GpuMem c = GpuMem src) \<and>
   (\<exists>p' w'. SurfacePlane_assign e p other w2 = (p', w')
      \<and> \<not> OwnMemory p' \<and> GpuMem p' = GpuMem other
      \<and> calls w' = calls w2 @
           (if OwnMemory p
            then [CuCtxPushCurrent (ctx p), CuMemFree (GpuMem p), CuCtxPopCurrent] else [])
      \<and> instances (HWSurfaceRegister w') =
           (if OwnMemory p \<and> TRACK_TOKEN_ALLOCATIONS e
            then filter (\<lambda>x. info_id x \<noteq> plane_id p) (instances (HWSurfaceRegister w2))
            else instances (HWSurfaceRegister w2))) \<and>
   (\<exists>cs w'. clone_times N s w3 = (cs, w') \<and> length cs = N
      \<and> GetSize (HWSurfaceRegister w') = GetSize (HWSurfaceRegister w3)
      \<and> GetSize (BuffersRegister w') = GetSize (BuffersRegister w3)
      \<and> calls w' = calls w3
      \<and> (\<forall>c \<in> set cs. (\<forall>pl \<in> set (planes c). \<not> OwnMemory pl)
            \<and> map GpuMem (planes c) = map GpuMem (planes s)))"
proof (intro conjI)
  show "\<exists>c. SurfacePlane_copy src w1 = (c, w1) \<and> \<not> OwnMemory c \<and> GpuMem c = GpuMem src"
    by (simp add: SurfacePlane_copy_def SurfacePlane_fields_def OwnMemory_def GpuMem_def)
next
  show "\<exists>p' w'. SurfacePlane_assign e p other w2 = (p', w')
      \<and> \<not> OwnMemory p' \<and> GpuMem p' = GpuMem other
      \<and> calls w' = calls w2 @
           (if OwnMemory p
            then [CuCtxPushCurrent (ctx p), CuMemFree (GpuMem p), CuCtxPopCurrent] else [])
      \<and> instances (HWSurfaceRegister w') =
           (if OwnMemory p \<and> TRACK_TOKEN_ALLOCATIONS e
            then filter (\<lambda>x. info_id x \<noteq> plane_id p) (instances (HWSurfaceRegister w2))
            else instances (HWSurfaceRegister w2))"
    by (rule SurfacePlane_assign_view)
next
  show "\<exists>cs w'. clone_times N s w3 = (cs, w') \<and> length cs = N
      \<and> GetSize (HWSurfaceRegister w') = GetSize (HWSurfaceRegister w3)
      \<and> GetSize (BuffersRegister w') = GetSize (BuffersRegister w3)
      \<and> calls w' = calls w3
      \<and> (\<forall>c \<in> set cs. (\<forall>pl \<in> set (planes c). \<not> OwnMemory pl)
            \<and> map GpuMem (planes c) = map GpuMem (planes s))"
    using clone_times_views [of N s w3] by auto
qed

text \<open>An owning \<open>640 \<times> 480\<close> plane is copied and then assigned a view; an allocated
  tri-planar surface with three live allocations is cloned twice.\<close>

theorem copies_are_views_witness:
  "OwnMemory owner_plane \<and> GpuMem owner_plane = 0x10000 \<and>
   GetSize (HWSurfaceRegister owner_world) = 1 \<and>
   (\<exists>c. SurfacePlane_copy owner_plane owner_world = (c, owner_world)
      \<and> \<not> OwnMemory c \<and> GpuMem c = 0x10000) \<and>
   (\<exists>p' w'. SurfacePlane_assign env_ok owner_plane view_Y owner_world = (p', w')
      \<and> \<not> OwnMemory p' \<and> GpuMem p' = 0x1000
      \<and> calls w' = calls owner_world @ [CuCtxPushCurrent 0, CuMemFree 0x10000, CuCtxPopCurrent]
      \<and> instances (HWSurfaceRegister w') = []) \<and>
   GetSize (HWSurfaceRegister yuv_world) = 3 \<and>
   (\<exists>cs w'. clone_times (Suc (Suc 0)) yuv_surface yuv_world = (cs, w') \<and> length cs = 2
      \<and> GetSize (HWSurfaceRegister w') = 3
      \<and> calls w' = calls yuv_world
      \<and> (\<forall>c \<in> set cs. (\<forall>pl \<in> set (planes c). \<not> OwnMemory pl)
            \<and> map GpuMem (planes c) = [0x10000, 0x10000, 0x10000]))"
  using copies_are_views [of owner_plane owner_world env_ok owner_plane view_Y owner_world
      "Suc (Suc 0)" yuv_surface yuv_world]
  by (simp add: surface_ctor_defs plane_defs run_defs Let_def GetSize_def AllocInfo_eq_def)

subsection \<open>C5: allocation failure, host against device\<close>

text \<open>
  Claim C5. When an owning host buffer of non-zero size is constructed and the pinned
  allocator returns no memory (it writes nothing, or writes null), both constructors
  throw \<^verbatim>\<open>bad_alloc\<close>. When the pitched device allocation of an owning plane fails, the
  constructor raises nothing: it returns a plane that claims ownership and whose device
  pointer is still null.
\<close>

theorem allocation_failure_asymmetry:
  "(bufferSize \<noteq> 0 \<and>
      (cudaMallocHost e (calls w) bufferSize = None
         \<or> cudaMallocHost e (calls w) bufferSize = Some 0)
     \<longrightarrow> fst (Buffer_ctor e bufferSize True w) = Inl bad_alloc
       \<and> fst (Buffer_MakeOwnMem e bufferSize w) = Inl bad_alloc
       \<and> fst (Buffer_ctor_from e bufferSize pCopyFrom True w) = Inl bad_alloc) \<and>
   (cuMemAllocPitch e (calls w @ [CuCtxPushCurrent context])
        (ucast (newWidth * newElemSize)) (ucast newHeight) 16 = PitchFail g
     \<longrightarrow> (\<exists>p w'. SurfacePlane_alloc e newWidth newHeight newElemSize context w = (p, w')
            \<and> OwnMemory p \<and> GpuMem p = 0))"
  by (auto simp: buffer_defs SurfacePlane_alloc_def SurfacePlane_Allocate_def
      SurfacePlane_fields_def OwnMemory_def GpuMem_def Let_def
      split: prod.splits option.splits)

theorem allocation_failure_asymmetry_witness:
  "(4::u64) \<noteq> 0 \<and> cudaMallocHost env_fail (calls world_init) 4 = None \<and>
   fst (Buffer_ctor env_fail 4 True world_init) = Inl bad_alloc \<and>
   fst (Buffer_MakeOwnMem env_fail 4 world_init) = Inl bad_alloc \<and>
   fst (Buffer_ctor_from env_fail 4 0x5000 True world_init) = Inl bad_alloc \<and>
   cuMemAllocPitch env_fail (calls world_init @ [CuCtxPushCurrent 0])
        (ucast ((640::u32) * 1)) (ucast (480::u32)) 16 = PitchFail 0 \<and>
   (\<exists>p w'. SurfacePlane_alloc env_fail 640 480 1 0 world_init = (p, w')
      \<and> OwnMemory p \<and> GpuMem p = 0)"
  using allocation_failure_asymmetry [of 4 env_fail world_init "0x5000" 0 640 1 480 0]
  by (simp add: run_defs)

subsection \<open>C6: plane indices out of range\<close>

text \<open>
  Claim C6, amended. For every surface variant, each of the five queries \<^verbatim>\<open>Width\<close>,
  \<^verbatim>\<open>WidthInBytes\<close>, \<^verbatim>\<open>Height\<close>, \<^verbatim>\<open>Pitch\<close> and \<^verbatim>\<open>PlanePtr\<close> fails with the invalid-argument
  condition exactly when the plane index is at least the number of logical planes of
  the variant: 1 for Y, RGB and RGB_PLANAR, 2 for NV12, 3 for YUV420.
\<close>

theorem queries_fail_beyond_logical_planes:
  "(LogicalPlanes s \<le> planeNumber)
      = (Width s planeNumber = Inl (invalid_argument ''Invalid plane number'')) \<and>
   (LogicalPlanes s \<le> planeNumber)
      = (WidthInBytes s planeNumber = Inl (invalid_argument ''Invalid plane number'')) \<and>
   (LogicalPlanes s \<le> planeNumber)
      = (Height s planeNumber = Inl (invalid_argument ''Invalid plane number'')) \<and>
   (LogicalPlanes s \<le> planeNumber)
      = (Pitch s planeNumber = Inl (invalid_argument ''Invalid plane number'')) \<and>
   (LogicalPlanes s \<le> planeNumber)
      = (PlanePtr s planeNumber = Inl (invalid_argument ''Invalid plane number''))"
proof (cases s)
  case (SurfaceNV12 p)
  then show ?thesis
    by (auto simp: word_less_2_cases invalid_plane_def simp flip: not_less)
next
  case (SurfaceYUV420 pY pU pV)
  then show ?thesis
    by (auto simp: word_less_3_cases invalid_plane_def simp flip: not_less)
qed (auto simp: invalid_plane_def simp flip: not_less)

theorem queries_fail_beyond_logical_planes_witness:
  "LogicalPlanes (fst (SurfaceNV12_ctor env_ok 640 480 0 world_init)) \<le> 2 \<and>
   Width (fst (SurfaceNV12_ctor env_ok 640 480 0 world_init)) 2
      = Inl (invalid_argument ''Invalid plane number'') \<and>
   WidthInBytes (fst (SurfaceNV12_ctor env_ok 640 480 0 world_init)) 2
      = Inl (invalid_argument ''Invalid plane number'') \<and>
   Height (fst (SurfaceNV12_ctor env_ok 640 480 0 world_init)) 2
      = Inl (invalid_argument ''Invalid plane number'') \<and>
   Pitch (fst (SurfaceNV12_ctor env_ok 640 480 0 world_init)) 2
      = Inl (invalid_argument ''Invalid plane number'') \<and>
   PlanePtr (fst (SurfaceNV12_ctor env_ok 640 480 0 world_init)) 2
      = Inl (invalid_argument ''Invalid plane number'')"
  using queries_fail_beyond_logical_planes
    [of "fst (SurfaceNV12_ctor env_ok 640 480 0 world_init)" 2]
  by (simp add: surface_ctor_defs plane_defs run_defs Let_def)

text \<open>
  The claim as stated fails for NV12, whose plane count is 1: index 1 is not below the
  plane count, and every query answers for it with the chroma geometry.
\<close>

theorem queries_fail_beyond_NumPlanes_counterexample:
  "NumPlanes (fst (SurfaceNV12_ctor env_ok 640 480 0 world_init)) \<le> 1 \<and>
   Width (fst (SurfaceNV12_ctor env_ok 640 480 0 world_init)) 1 = Inr 640 \<and>
   WidthInBytes (fst (SurfaceNV12_ctor env_ok 640 480 0 world_init)) 1 = Inr 640 \<and>
   Height (fst (SurfaceNV12_ctor env_ok 640 480 0 world_init)) 1 = Inr 240 \<and>
   Pitch (fst (SurfaceNV12_ctor env_ok 640 480 0 world_init)) 1 = Inr 1024 \<and>
   PlanePtr (fst (SurfaceNV12_ctor env_ok 640 480 0 world_init)) 1 = Inr 0x88000"
  by (simp add: surface_ctor_defs plane_defs run_defs Let_def)

subsection \<open>C7: bytes of the logical planes\<close>

text \<open>
  Claim C7, amended. For a surface allocated with \<open>(W, H)\<close>, the sum over the logical
  planes of \<open>WidthInBytes(i) * Height(i)\<close> is: for Y, \<open>W*H\<close>; for NV12,
  \<open>W*H + W*(H/2)\<close> when \<open>H\<close> is even and \<open>3*H\<close> fits into 32 bits; for YUV420,
  \<open>W*H + 2*(W/2)*(H/2)\<close>; for RGB, \<open>3*W*H\<close> when \<open>3*W\<close> fits into 32 bits; for
  RGB_PLANAR, \<open>W*H\<close> when \<open>3*H\<close> fits into 32 bits (its one logical plane reports the
  geometry of one channel block).
\<close>

theorem logical_bytes_per_format:
  "(\<exists>s w'. Make_alloc e Y W H context w = (Some s, w') \<and> logical_bytes s = unat W * unat H) \<and>
   (3 * unat H < 2 ^ 32 \<and> even (unat H) \<longrightarrow>
      (\<exists>s w'. Make_alloc e NV12 W H context w = (Some s, w')
         \<and> logical_bytes s = unat W * unat H + unat W * (unat H div 2))) \<and>
   (\<exists>s w'. Make_alloc e YUV420 W H context w = (Some s, w')
      \<and> logical_bytes s = unat W * unat H + 2 * (unat W div 2) * (unat H div 2)) \<and>
   (3 * unat W < 2 ^ 32 \<longrightarrow>
      (\<exists>s w'. Make_alloc e RGB W H context w = (Some s, w')
         \<and> logical_bytes s = 3 * unat W * unat H)) \<and>
   (3 * unat H < 2 ^ 32 \<longrightarrow>
      (\<exists>s w'. Make_alloc e RGB_PLANAR W H context w = (Some s, w')
         \<and> logical_bytes s = unat W * unat H))"
  by (intro conjI impI; (elim conjE)?;
      (rule bytes_Y bytes_NV12 bytes_YUV420 bytes_RGB bytes_RGBPlanar); assumption)

theorem logical_bytes_per_format_witness:
  "3 * unat (480::u32) < 2 ^ 32 \<and> even (unat (480::u32)) \<and> 3 * unat (640::u32) < 2 ^ 32 \<and>
   (\<exists>s w'. Make_alloc env_ok Y 640 480 0 world_init = (Some s, w') \<and> logical_bytes s = 307200) \<and>
   (\<exists>s w'. Make_alloc env_ok NV12 640 480 0 world_init = (Some s, w') \<and> logical_bytes s = 460800) \<and>
   (\<exists>s w'. Make_alloc env_ok YUV420 640 480 0 world_init = (Some s, w') \<and> logical_bytes s = 460800) \<and>
   (\<exists>s w'. Make_alloc env_ok RGB 640 480 0 world_init = (Some s, w') \<and> logical_bytes s = 921600) \<and>
   (\<exists>s w'. Make_alloc env_ok RGB_PLANAR 640 480 0 world_init = (Some s, w')
      \<and> logical_bytes s = 307200)"
  using logical_bytes_per_format [of env_ok 640 480 0 world_init] by simp

text \<open>
  The claim as stated fails for RGB_PLANAR, where a \<open>1 \<times> 1\<close> surface sums to 1 and not
  to 3; for NV12 with an odd height, where a \<open>2 \<times> 1\<close> surface sums to 0 and not to 2;
  and where a 32-bit product wraps, as for an RGB surface of width \<open>2^31\<close> and height 1,
  which sums to \<open>2^31\<close> and not to \<open>3 * 2^31\<close>.
\<close>

theorem logical_bytes_per_format_counterexample:
  "logical_bytes (fst (SurfaceRGBPlanar_ctor env_ok 1 1 0 world_init)) = 1 \<and>
   logical_bytes (fst (SurfaceRGBPlanar_ctor env_ok 1 1 0 world_init))
      \<noteq> 3 * unat (1::u32) * unat (1::u32) \<and>
   logical_bytes (fst (SurfaceNV12_ctor env_ok 2 1 0 world_init)) = 0 \<and>
   logical_bytes (fst (SurfaceNV12_ctor env_ok 2 1 0 world_init))
      \<noteq> unat (2::u32) * unat (1::u32) + unat (2::u32) * (unat (1::u32) div 2) \<and>
   logical_bytes (fst (SurfaceRGB_ctor env_ok 2147483648 1 0 world_init)) = 2147483648 \<and>
   logical_bytes (fst (SurfaceRGB_ctor env_ok 2147483648 1 0 world_init))
      \<noteq> 3 * unat (2147483648::u32) * unat (1::u32)"
  by (simp add: surface_ctor_defs plane_defs run_defs Let_def
      logical_bytes_RGBPlanar logical_bytes_NV12 logical_bytes_RGB)

subsection \<open>C8: rebinding a non-owning buffer\<close>

text \<open>
  Claim C8. \<^verbatim>\<open>Update(s, p)\<close> on a non-owning buffer returns a buffer whose raw pointer is
  \<open>p\<close> and whose size is \<open>s\<close>, still non-owning, and leaves the world as it was: no
  call is made (nothing is allocated, freed or copied) and both registers are unchanged.
\<close>

theorem Buffer_Update_view_rebinds:
  "\<not> own_memory b \<Longrightarrow>
   \<exists>b' w'. Buffer_Update e s p b w = (b', w')
     \<and> GetRawMemPtr b' = p \<and> GetRawMemSize b' = s \<and> \<not> own_memory b'
     \<and> calls w' = calls w
     \<and> BuffersRegister w' = BuffersRegister w
     \<and> HWSurfaceRegister w' = HWSurfaceRegister w"
  by (simp add: Buffer_Update_def Buffer_Deallocate_def GetRawMemPtr_def GetRawMemSize_def)

theorem Buffer_Update_view_rebinds_witness:
  "\<not> own_memory (Buffer_fields 4 False) \<and>
   (\<exists>b' w'. Buffer_Update env_fail 16 0x6000 (Buffer_fields 4 False) world_init = (b', w')
     \<and> GetRawMemPtr b' = 0x6000 \<and> GetRawMemSize b' = 16 \<and> \<not> own_memory b'
     \<and> calls w' = []
     \<and> BuffersRegister w' = AllocRegister_init
     \<and> HWSurfaceRegister w' = AllocRegister_init)"
proof -
  have h: "\<not> own_memory (Buffer_fields 4 False)"
    by (simp add: Buffer_fields_def)
  show ?thesis
    using h Buffer_Update_view_rebinds [OF h, of env_fail 16 "0x6000" world_init]
    by (simp add: world_init_def)
qed

subsection \<open>C9: GetSurfacePlane beyond the plane count\<close>

text \<open>
  Claim C9, amended. For every surface variant, \<^verbatim>\<open>GetSurfacePlane\<close> returns null, and
  raises nothing, for a plane index that is at least the plane count; for an index
  below the plane count it returns the plane member of that position. The geometry
  and pointer queries differ from it, raising the invalid-argument condition at an
  index that is at least the plane count, for every variant and index but one: on an
  NV12 surface, whose plane count is 1, index 1 makes \<^verbatim>\<open>GetSurfacePlane\<close> return null
  while the five queries answer with the chroma geometry.
\<close>

theorem GetSurfacePlane_against_queries:
  "(NumPlanes s \<le> planeNumber \<longrightarrow> GetSurfacePlane s planeNumber = None) \<and>
   (planeNumber < NumPlanes s \<longrightarrow>
      GetSurfacePlane s planeNumber = Some (planes s ! unat planeNumber)) \<and>
   (NumPlanes s \<le> planeNumber \<and> \<not> (\<exists>plane. s = SurfaceNV12 plane \<and> planeNumber = 1) \<longrightarrow>
      Width s planeNumber = Inl (invalid_argument ''Invalid plane number'')
      \<and> WidthInBytes s planeNumber = Inl (invalid_argument ''Invalid plane number'')
      \<and> Height s planeNumber = Inl (invalid_argument ''Invalid plane number'')
      \<and> Pitch s planeNumber = Inl (invalid_argument ''Invalid plane number'')
      \<and> PlanePtr s planeNumber = Inl (invalid_argument ''Invalid plane number'')) \<and>
   (NumPlanes (SurfaceNV12 p) \<le> 1
      \<and> GetSurfacePlane (SurfaceNV12 p) 1 = None
      \<and> Width (SurfaceNV12 p) 1 = Inr (width p)
      \<and> WidthInBytes (SurfaceNV12 p) 1 = Inr (width p * elemSize p)
      \<and> Height (SurfaceNV12 p) 1 = Inr (height p div 3)
      \<and> Pitch (SurfaceNV12 p) 1 = Inr (pitch p)
      \<and> PlanePtr (SurfaceNV12 p) 1 = Inr (GpuMem p + ucast (height p * 2 div 3 * pitch p)))"
proof (intro conjI)
  show "NumPlanes s \<le> planeNumber \<longrightarrow> GetSurfacePlane s planeNumber = None"
  proof (cases s)
    case (SurfaceYUV420 pY pU pV)
    then show ?thesis
      by (auto simp: word_less_3_cases simp flip: not_less)
  qed (auto simp flip: not_less)
next
  show "planeNumber < NumPlanes s \<longrightarrow>
      GetSurfacePlane s planeNumber = Some (planes s ! unat planeNumber)"
  proof (cases s)
    case (SurfaceYUV420 pY pU pV)
    then show ?thesis
      by (auto simp: word_less_3_cases)
  qed auto
next
  show "NumPlanes s \<le> planeNumber \<and> \<not> (\<exists>plane. s = SurfaceNV12 plane \<and> planeNumber = 1) \<longrightarrow>
      Width s planeNumber = Inl (invalid_argument ''Invalid plane number'')
      \<and> WidthInBytes s planeNumber = Inl (invalid_argument ''Invalid plane number'')
      \<and> Height s planeNumber = Inl (invalid_argument ''Invalid plane number'')
      \<and> Pitch s planeNumber = Inl (invalid_argument ''Invalid plane number'')
      \<and> PlanePtr s planeNumber = Inl (invalid_argument ''Invalid plane number'')"
  proof (cases s)
    case (SurfaceYUV420 pY pU pV)
    then show ?thesis
      by (auto simp: word_less_3_cases invalid_plane_def simp flip: not_less)
  qed (auto simp: invalid_plane_def simp flip: not_less)
qed (simp_all)

text \<open>A tri-planar surface at the indices 3 and 2, and an NV12 surface of stored height
  720 at the indices 2, 1 and 0.\<close>

theorem GetSurfacePlane_against_queries_witness:
  "NumPlanes (SurfaceYUV420 view_Y view_U view_V) \<le> 3 \<and>
   \<not> (\<exists>plane. SurfaceYUV420 view_Y view_U view_V = SurfaceNV12 plane \<and> (3::u32) = 1) \<and>
   GetSurfacePlane (SurfaceYUV420 view_Y view_U view_V) 3 = None \<and>
   Height (SurfaceYUV420 view_Y view_U view_V) 3
      = Inl (invalid_argument ''Invalid plane number'') \<and>
   PlanePtr (SurfaceYUV420 view_Y view_U view_V) 3
      = Inl (invalid_argument ''Invalid plane number'') \<and>
   2 < NumPlanes (SurfaceYUV420 view_Y view_U view_V) \<and>
   GetSurfacePlane (SurfaceYUV420 view_Y view_U view_V) 2 = Some view_V \<and>
   NumPlanes (fst (SurfaceNV12_ctor env_ok 640 480 0 world_init)) \<le> 2 \<and>
   GetSurfacePlane (fst (SurfaceNV12_ctor env_ok 640 480 0 world_init)) 2 = None \<and>
   Width (fst (SurfaceNV12_ctor env_ok 640 480 0 world_init)) 2
      = Inl (invalid_argument ''Invalid plane number'') \<and>
   NumPlanes (SurfaceNV12 owner_plane) \<le> 1 \<and>
   GetSurfacePlane (SurfaceNV12 owner_plane) 1 = None \<and>
   Width (SurfaceNV12 owner_plane) 1 = Inr 640 \<and>
   Height (SurfaceNV12 owner_plane) 1 = Inr 160 \<and>
   0 < NumPlanes (SurfaceNV12 owner_plane) \<and>
   GetSurfacePlane (SurfaceNV12 owner_plane) 0 = Some owner_plane"
  using GetSurfacePlane_against_queries
      [of "SurfaceYUV420 view_Y view_U view_V" 3 owner_plane]
    GetSurfacePlane_against_queries
      [of "SurfaceYUV420 view_Y view_U view_V" 2 owner_plane]
    GetSurfacePlane_against_queries
      [of "fst (SurfaceNV12_ctor env_ok 640 480 0 world_init)" 2 owner_plane]
    GetSurfacePlane_against_queries
      [of "SurfaceNV12 owner_plane" 0 owner_plane]
  by (simp add: surface_ctor_defs plane_defs run_defs Let_def)

text \<open>
  The claim as stated fails in its contrast with the geometry queries: on an NV12
  surface allocated with \<open>640 \<times> 480\<close>, index 1 is not below the plane count and
  \<^verbatim>\<open>GetSurfacePlane\<close> returns null, yet no query raises there: each returns a value.
\<close>

theorem GetSurfacePlane_contrast_counterexample:
  "NumPlanes (fst (SurfaceNV12_ctor env_tight 640 480 0 world_init)) \<le> 1 \<and>
   GetSurfacePlane (fst (SurfaceNV12_ctor env_tight 640 480 0 world_init)) 1 = None \<and>
   Width (fst (SurfaceNV12_ctor env_tight 640 480 0 world_init)) 1
      \<noteq> Inl (invalid_argument ''Invalid plane number'') \<and>
   WidthInBytes (fst (SurfaceNV12_ctor env_tight 640 480 0 world_init)) 1
      \<noteq> Inl (invalid_argument ''Invalid plane number'') \<and>
   Height (fst (SurfaceNV12_ctor env_tight 640 480 0 world_init)) 1 = Inr 240 \<and>
   Pitch (fst (SurfaceNV12_ctor env_tight 640 480 0 world_init)) 1 = Inr 640 \<and>
   PlanePtr (fst (SurfaceNV12_ctor env_tight 640 480 0 world_init)) 1 = Inr 0x5B000"
  by (simp add: surface_ctor_defs plane_defs run_defs Let_def)

subsection \<open>C10: an owning buffer of size zero\<close>

text \<open>
  Claim C10. Constructing an owning buffer of size 0 succeeds: no \<^verbatim>\<open>bad_alloc\<close> is
  thrown, the trace gains no call (the pinned allocator is not called), the buffer's
  raw pointer is null and its size is 0; and when tracking is enabled the buffers
  register gains one note, of size 0.
\<close>

theorem Buffer_ctor_zero_size:
  "\<exists>b w'. Buffer_ctor e 0 True w = (Inr b, w') \<and> Buffer_MakeOwnMem e 0 w = (Inr b, w')
     \<and> own_memory b \<and> GetRawMemPtr b = 0 \<and> GetRawMemSize b = 0 \<and> calls w' = calls w
     \<and> (TRACK_TOKEN_ALLOCATIONS e \<longrightarrow>
          instances (BuffersRegister w') =
            instances (BuffersRegister w) @ [\<lparr>info_id = ID (BuffersRegister w), info_size = 0\<rparr>]
          \<and> GetSize (BuffersRegister w') = GetSize (BuffersRegister w) + 1)"
  by (simp add: buffer_defs GetSize_def Let_def)

theorem Buffer_ctor_zero_size_witness:
  "TRACK_TOKEN_ALLOCATIONS env_fail \<and>
   (\<exists>b w'. Buffer_ctor env_fail 0 True world_init = (Inr b, w')
     \<and> Buffer_MakeOwnMem env_fail 0 world_init = (Inr b, w')
     \<and> own_memory b \<and> GetRawMemPtr b = 0 \<and> GetRawMemSize b = 0 \<and> calls w' = []
     \<and> instances (BuffersRegister w') = [\<lparr>info_id = 0, info_size = 0\<rparr>]
     \<and> GetSize (BuffersRegister w') = 1)"
  using Buffer_ctor_zero_size [of env_fail world_init]
  by (simp add: run_defs GetSize_def)

end
